theory Spec2Isabelle
  imports Complex_Main "HOL-Library.Sublist"
begin

section \<open>Common types\<close>

text \<open>
  Failures of the store, the network or a callback are values: a function of the source
  that can throw returns \<open>error + 'a\<close>, with \<open>Inl\<close> for the thrown error.
  JavaScript numbers are modelled by \<open>int\<close> where the code only counts or compares
  clock readings, and by \<open>real\<close> where it divides or takes logarithms (the rounding of
  IEEE doubles is not modelled). \<open>Math.round\<close> rounds half up, which is HOL's
  \<open>round x = \<lfloor>x + 1/2\<rfloor>\<close>.
\<close>

datatype error = StoreError | CallbackError string | CircuitOpenError string

datatype IncidentPriority = P1 | P2 | P3 | P4

datatype Severity = LOW | MEDIUM | HIGH | CRITICAL

section \<open>Invariant engine: drift score (invariant-engine.ts)\<close>

record ViolationRecord =
  entityId :: string
  entityType :: string
  shopId :: "string option"
  detail :: string

record InvariantResult =
  name :: string
  passed :: bool
  driftScore :: int
  violations :: "ViolationRecord list"
  autoCorrected :: bool

text \<open>The weight table of \<open>computeDriftScore\<close>, looked up by the result's name.\<close>

definition weights :: "string \<rightharpoonup> real" where
  "weights = map_of
     [(''NO_NEGATIVE_STOCK'', 25),
      (''SALE_TOTAL_MATCHES_LINE_ITEMS'', 20),
      (''PAYMENT_SUM_MATCHES_SALE_TOTAL'', 20),
      (''NO_DUPLICATE_INVOICES'', 15),
      (''STOCK_MOVEMENT_BALANCE'', 10),
      (''CREDIT_LIMIT_NOT_EXCEEDED'', 7),
      (''NO_ORPHANED_SALE_ITEMS'', 3)]"

text \<open>
  \<open>weights\<close> is a plain object literal, so reading \<open>weights[r.name]\<close> also finds the
  members every object inherits from \<open>Object.prototype\<close>: for these names the value read
  is a function (for \<open>__proto__\<close>, the prototype object), which is not nullish, so the
  default of \<open>?? 5\<close> is not taken. The names are those of \<open>Object.prototype\<close> in Node.js.
\<close>

definition object_prototype_keys :: "string list" where
  "object_prototype_keys =
     [''constructor'', ''__defineGetter__'', ''__defineSetter__'', ''hasOwnProperty'',
      ''__lookupGetter__'', ''__lookupSetter__'', ''isPrototypeOf'', ''propertyIsEnumerable'',
      ''toString'', ''valueOf'', ''__proto__'', ''toLocaleString'']"

datatype property = Own real | Inherited | Undefined

definition weights_get :: "string \<Rightarrow> property" where
  "weights_get n =
     (case weights n of
        Some w \<Rightarrow> Own w
      | None \<Rightarrow> if n \<in> set object_prototype_keys then Inherited else Undefined)"

text \<open>
  A JavaScript number that may be NaN. Arithmetic on a function or an object converts it
  to NaN, and NaN is absorbing for \<open>*\<close>, \<open>+\<close>, \<open>-\<close>, \<open>Math.min\<close>, \<open>Math.max\<close> and
  \<open>Math.round\<close>.
\<close>

datatype number = Num real | NaN

text \<open>\<open>weights[r.name] ?? 5\<close>, as the number the arithmetic that follows makes of it.\<close>

definition weight_of :: "string \<Rightarrow> number" where
  "weight_of n =
     (case weights_get n of
        Own w \<Rightarrow> Num w
      | Undefined \<Rightarrow> Num 5
      | Inherited \<Rightarrow> NaN)"

text \<open>\<open>Math.min(weight, weight * Math.log10(r.violations.length + 1))\<close>\<close>

definition deduction_of :: "InvariantResult \<Rightarrow> number" where
  "deduction_of r =
     (case weight_of (name r) of
        Num weight \<Rightarrow> Num (min weight (weight * log 10 (real (length (violations r)) + 1)))
      | NaN \<Rightarrow> NaN)"

fun add :: "number \<Rightarrow> number \<Rightarrow> number" where
  "add (Num a) (Num b) = Num (a + b)"
| "add a b = NaN"

text \<open>The body of the \<open>for\<close> loop: one result, the running deduction.\<close>

definition drift_step :: "InvariantResult \<Rightarrow> number \<Rightarrow> number" where
  "drift_step r deduction = (if \<not> passed r then add deduction (deduction_of r) else deduction)"

text \<open>\<open>Math.max(0, Math.round(100 - deduction))\<close>\<close>

definition computeDriftScore :: "InvariantResult list \<Rightarrow> number" where
  "computeDriftScore results =
     (case fold drift_step results (Num 0) of
        Num deduction \<Rightarrow> Num (real_of_int (max 0 (round (100 - deduction))))
      | NaN \<Rightarrow> NaN)"

text \<open>
  The formula of the specification, written from its words: the weight table with the
  default weight 5 for every other name, the sum over the failed results only, the floor
  at 0 applied before rounding.
\<close>

definition spec_weight :: "string \<Rightarrow> real" where
  "spec_weight n = (case weights n of Some w \<Rightarrow> w | None \<Rightarrow> 5)"

definition spec_deduction :: "InvariantResult \<Rightarrow> real" where
  "spec_deduction r =
     min (spec_weight (name r)) (spec_weight (name r) * log 10 (real (length (violations r)) + 1))"

definition spec_drift_score :: "InvariantResult list \<Rightarrow> int" where
  "spec_drift_score results =
     round (max 0 (100 - (\<Sum>r\<leftarrow>filter (\<lambda>r. \<not> passed r) results. spec_deduction r)))"

section \<open>Invariant engine: one cycle (invariant-engine.ts)\<close>

text \<open>
  The catalogue \<open>INVARIANTS\<close>. Each check is a SQL query; what it returns in one cycle
  is an input of the model (\<open>CheckRun\<close>), together with whether \<open>autoCorrect\<close> and
  \<open>persistViolations\<close> return or throw.
\<close>

record Invariant =
  inv_name :: string
  inv_priority :: IncidentPriority
  safeToAutoCorrect :: bool
  has_autoCorrect :: bool

definition INVARIANTS :: "Invariant list" where
  "INVARIANTS =
     [\<lparr>inv_name = ''NO_NEGATIVE_STOCK'', inv_priority = P1,
        safeToAutoCorrect = False, has_autoCorrect = False\<rparr>,
      \<lparr>inv_name = ''SALE_TOTAL_MATCHES_LINE_ITEMS'', inv_priority = P1,
        safeToAutoCorrect = False, has_autoCorrect = False\<rparr>,
      \<lparr>inv_name = ''PAYMENT_SUM_MATCHES_SALE_TOTAL'', inv_priority = P1,
        safeToAutoCorrect = False, has_autoCorrect = False\<rparr>,
      \<lparr>inv_name = ''NO_DUPLICATE_INVOICES'', inv_priority = P1,
        safeToAutoCorrect = False, has_autoCorrect = False\<rparr>,
      \<lparr>inv_name = ''STOCK_MOVEMENT_BALANCE'', inv_priority = P2,
        safeToAutoCorrect = False, has_autoCorrect = False\<rparr>,
      \<lparr>inv_name = ''CREDIT_LIMIT_NOT_EXCEEDED'', inv_priority = P2,
        safeToAutoCorrect = False, has_autoCorrect = False\<rparr>,
      \<lparr>inv_name = ''NO_ORPHANED_SALE_ITEMS'', inv_priority = P3,
        safeToAutoCorrect = True, has_autoCorrect = True\<rparr>]"

record CheckRun =
  check_result :: "error + ViolationRecord list"
  autoCorrect_ok :: bool
  persist_ok :: bool

definition synthetic_failed :: "string \<Rightarrow> InvariantResult" where
  "synthetic_failed n =
     \<lparr>name = n, passed = False, driftScore = 0, violations = [], autoCorrected = False\<rparr>"

definition run_invariant :: "Invariant \<Rightarrow> CheckRun \<Rightarrow> InvariantResult list" where
  "run_invariant iv run =
     (case check_result run of
        Inl err \<Rightarrow> [synthetic_failed (inv_name iv)]
      | Inr vs \<Rightarrow>
          (let corrected = (vs \<noteq> [] \<and> safeToAutoCorrect iv \<and> has_autoCorrect iv
                             \<and> autoCorrect_ok run);
               result = \<lparr>name = inv_name iv,
                         passed = (vs = [] \<or> corrected),
                         driftScore = (if vs = [] then 100
                                       else max 0 (100 - int (length vs) * 10)),
                         violations = vs,
                         autoCorrected = corrected\<rparr>
           in if vs \<noteq> [] \<and> \<not> persist_ok run
              then [result, synthetic_failed (inv_name iv)]
              else [result]))"

fun forward_failed ::
  "InvariantResult list \<Rightarrow> error + (InvariantResult \<times> IncidentPriority) list" where
  "forward_failed [] = Inr []"
| "forward_failed (r # rs) =
     (case find (\<lambda>i. inv_name i = name r) INVARIANTS of
        None \<Rightarrow> Inl (CallbackError ''TypeError'')
      | Some iv \<Rightarrow>
          (case forward_failed rs of
             Inl e \<Rightarrow> Inl e
           | Inr calls \<Rightarrow> Inr ((r, inv_priority iv) # calls)))"

record RunAllOutput =
  ra_results :: "InvariantResult list"
  ra_driftScore :: number
  persisted_drift_score :: number
  incident_calls :: "(InvariantResult \<times> IncidentPriority) list"

definition runAll :: "(string \<Rightarrow> CheckRun) \<Rightarrow> bool \<Rightarrow> error + RunAllOutput" where
  "runAll env insert_ok =
     (let results = concat (map (\<lambda>iv. run_invariant iv (env (inv_name iv))) INVARIANTS);
          score = computeDriftScore results
      in if \<not> insert_ok then Inl StoreError
         else (case forward_failed (filter (\<lambda>r. \<not> passed r) results) of
                 Inl e \<Rightarrow> Inl e
               | Inr calls \<Rightarrow>
                   Inr \<lparr>ra_results = results, ra_driftScore = score,
                        persisted_drift_score = score, incident_calls = calls\<rparr>))"

section \<open>Self-healing core: circuit breaker (self-healing-core.ts)\<close>

datatype CircuitState = CLOSED | OPEN | HALF_OPEN

text \<open>
  The object's fields: the three constructor parameters are never written after
  construction. \<open>Date.now()\<close> is an input of every operation that reads it; logging and
  the metrics of a transition are not part of the state.
\<close>

record CircuitBreaker =
  cb_name :: string
  failureThreshold :: int
  resetTimeoutMs :: int
  halfOpenProbes :: int
  state :: CircuitState
  failureCount :: int
  successCount :: int
  lastStateChange :: int

definition new_CircuitBreaker :: "string \<Rightarrow> int \<Rightarrow> int \<Rightarrow> int \<Rightarrow> int \<Rightarrow> CircuitBreaker" where
  "new_CircuitBreaker n threshold timeout probes now =
     \<lparr>cb_name = n, failureThreshold = threshold, resetTimeoutMs = timeout,
      halfOpenProbes = probes, state = CLOSED, failureCount = 0, successCount = 0,
      lastStateChange = now\<rparr>"

definition transitionTo :: "CircuitBreaker \<Rightarrow> CircuitState \<Rightarrow> int \<Rightarrow> CircuitBreaker" where
  "transitionTo cb st now = cb\<lparr>state := st, lastStateChange := now\<rparr>"

definition onSuccess :: "CircuitBreaker \<Rightarrow> int \<Rightarrow> CircuitBreaker" where
  "onSuccess cb now =
     (let cb1 = cb\<lparr>failureCount := 0\<rparr>
      in if state cb1 = HALF_OPEN
         then (let cb2 = cb1\<lparr>successCount := successCount cb1 + 1\<rparr>
               in if successCount cb2 \<ge> halfOpenProbes cb2
                  then (transitionTo cb2 CLOSED now)\<lparr>successCount := 0\<rparr>
                  else cb2)
         else cb1)"

definition onFailure :: "CircuitBreaker \<Rightarrow> int \<Rightarrow> CircuitBreaker" where
  "onFailure cb now =
     (let cb1 = cb\<lparr>failureCount := failureCount cb + 1\<rparr>
      in if failureCount cb1 \<ge> failureThreshold cb1
         then transitionTo cb1 OPEN now
         else cb1)"

text \<open>
  \<open>call\<close>: \<open>fn\<close> is given by what it does when awaited (\<open>Inl\<close>: it rejects); \<open>now\<close> is the
  clock at entry, \<open>settled\<close> the clock when \<open>fn\<close> has settled. The result holds what the
  caller gets, whether \<open>fn\<close> was invoked, and the breaker afterwards.
\<close>

record 'a CallResult =
  returned :: "error + 'a"
  fn_invoked :: bool
  breaker :: CircuitBreaker

definition call :: "CircuitBreaker \<Rightarrow> (error + 'a) \<Rightarrow> int \<Rightarrow> int \<Rightarrow> 'a CallResult" where
  "call cb fn now settled =
     (if state cb = OPEN \<and> \<not> (now - lastStateChange cb > resetTimeoutMs cb)
      then \<lparr>returned = Inl (CircuitOpenError (cb_name cb)), fn_invoked = False, breaker = cb\<rparr>
      else (let cb1 = (if state cb = OPEN then transitionTo cb HALF_OPEN now else cb)
            in case fn of
                 Inr v \<Rightarrow> \<lparr>returned = Inr v, fn_invoked = True, breaker = onSuccess cb1 settled\<rparr>
               | Inl e \<Rightarrow> \<lparr>returned = Inl e, fn_invoked = True, breaker = onFailure cb1 settled\<rparr>))"

text \<open>A run of calls on one breaker: each call is (what \<open>fn\<close> does, clock at entry).\<close>

fun calls :: "CircuitBreaker \<Rightarrow> ((error + 'a) \<times> int) list \<Rightarrow> CircuitBreaker" where
  "calls cb [] = cb"
| "calls cb ((fn, now) # rest) = calls (breaker (call cb fn now now)) rest"

section \<open>Self-healing core: idempotency registry (self-healing-core.ts)\<close>

text \<open>
  The table \<open>idempotency_keys\<close>, keyed by its primary key \<open>id\<close>. Each SQL statement of
  \<open>execute\<close> is one function on the table.
\<close>

record IdempotencyRow =
  response_body :: "string option"
  status_code :: "int option"
  locked :: bool
  locked_at :: "int option"
  expires_at :: int

type_synonym idempotency_keys = "string \<rightharpoonup> IdempotencyRow"

record IdempotencyResult =
  cached :: bool
  statusCode :: "int option"
  body :: "string option"

text \<open>\<open>SELECT ... WHERE id = key AND expires_at > NOW()\<close>\<close>

definition select_live :: "idempotency_keys \<Rightarrow> string \<Rightarrow> int \<Rightarrow> IdempotencyRow option" where
  "select_live tbl key now =
     (case tbl key of
        None \<Rightarrow> None
      | Some r \<Rightarrow> if expires_at r > now then Some r else None)"

text \<open>
  \<open>INSERT ... VALUES (key, TRUE, NOW(), NOW() + ttl) ON CONFLICT (id) DO NOTHING\<close>:
  the new table and the number of rows inserted (which \<open>execute\<close> does not read).
\<close>

definition insert_lock :: "idempotency_keys \<Rightarrow> string \<Rightarrow> int \<Rightarrow> int \<Rightarrow> idempotency_keys \<times> nat" where
  "insert_lock tbl key now ttlSeconds =
     (case tbl key of
        Some r \<Rightarrow> (tbl, 0)
      | None \<Rightarrow>
          (tbl(key \<mapsto> \<lparr>response_body = None, status_code = None, locked = True,
                        locked_at = Some now, expires_at = now + ttlSeconds * 1000\<rparr>), 1))"

text \<open>
  \<open>UPDATE ... SET response_body, status_code, locked = FALSE WHERE id = key\<close>. The
  column \<open>status_code\<close> is a 32-bit INT: the store rejects a status outside its range.
\<close>

definition store_response ::
  "idempotency_keys \<Rightarrow> string \<Rightarrow> int \<Rightarrow> string \<Rightarrow> error + idempotency_keys" where
  "store_response tbl key st b =
     (if st < - 2147483648 \<or> 2147483647 < st then Inl StoreError
      else (case tbl key of
              None \<Rightarrow> Inr tbl
            | Some r \<Rightarrow>
                Inr (tbl(key \<mapsto> r\<lparr>response_body := Some b, status_code := Some st,
                                     locked := False\<rparr>))))"

text \<open>\<open>DELETE FROM idempotency_keys WHERE id = key\<close>\<close>

definition delete_key :: "idempotency_keys \<Rightarrow> string \<Rightarrow> idempotency_keys" where
  "delete_key tbl key = tbl(key := None)"

text \<open>
  \<open>execute\<close> awaits between its statements, so other callers can change the table there.
  What they do is an input: \<open>after_select\<close> is applied between this caller's SELECT and
  its INSERT, \<open>while_asleep\<close> during the 500 ms sleep of the waiting branch, \<open>during_fn\<close>
  while \<open>fn\<close> runs. A caller alone in the system has the identity for all three.
  \<open>fn\<close> is given by what it does when awaited; the \<open>try\<close> block holds both \<open>fn\<close> and
  the UPDATE, so a rejected UPDATE also ends in the DELETE. The waiting branch calls \<open>execute\<close> again
  with the clock 500 ms later; the recursion is bounded by \<open>fuel\<close>, and \<open>None\<close> means the
  caller is still waiting when the fuel is spent.
\<close>

record Interference =
  after_select :: "idempotency_keys \<Rightarrow> idempotency_keys"
  while_asleep :: "idempotency_keys \<Rightarrow> idempotency_keys"
  during_fn :: "idempotency_keys \<Rightarrow> idempotency_keys"

definition alone :: Interference where
  "alone = \<lparr>after_select = (\<lambda>t. t), while_asleep = (\<lambda>t. t), during_fn = (\<lambda>t. t)\<rparr>"

record ExecuteResult =
  outcome :: "error + IdempotencyResult"
  fn_calls :: nat
  table_after :: idempotency_keys

fun execute ::
  "nat \<Rightarrow> Interference \<Rightarrow> idempotency_keys \<Rightarrow> string \<Rightarrow> (error + int \<times> string) \<Rightarrow> int \<Rightarrow> int
     \<Rightarrow> ExecuteResult option" where
  "execute 0 others tbl key fn ttlSeconds now = None"
| "execute (Suc fuel) others tbl key fn ttlSeconds now =
     (case select_live tbl key now of
        Some existing \<Rightarrow>
          (if locked existing
           then execute fuel others (while_asleep others tbl) key fn ttlSeconds (now + 500)
           else Some \<lparr>outcome = Inr \<lparr>cached = True,
                                      statusCode = status_code existing,
                                      body = response_body existing\<rparr>,
                       fn_calls = 0, table_after = tbl\<rparr>)
      | None \<Rightarrow>
          (let tbl1 = fst (insert_lock (after_select others tbl) key now ttlSeconds);
               tbl2 = during_fn others tbl1
           in case fn of
                Inr (st, b) \<Rightarrow>
                  (case store_response tbl2 key st b of
                     Inr tbl3 \<Rightarrow>
                       Some \<lparr>outcome = Inr \<lparr>cached = False, statusCode = Some st, body = Some b\<rparr>,
                             fn_calls = 1, table_after = tbl3\<rparr>
                   | Inl err \<Rightarrow>
                       Some \<lparr>outcome = Inl err, fn_calls = 1, table_after = delete_key tbl2 key\<rparr>)
              | Inl err \<Rightarrow>
                  Some \<lparr>outcome = Inl err, fn_calls = 1, table_after = delete_key tbl2 key\<rparr>))"

section \<open>Incident manager (incident-manager.ts)\<close>

datatype IncidentStatus = StatusOPEN | AUTO_HEALING | ESCALATED | RESOLVED | StatusCLOSED

text \<open>JSON values, for the \<open>details\<close> of an incident and the bodies of alerts.\<close>

datatype json = JNull | JStr string | JNum int | JObj "(string \<times> json) list"

record StoredIncident =
  priority :: IncidentPriority
  status :: IncidentStatus
  title :: string
  invariant :: "string option"
  details :: json
  forensic_snapshot :: "json option"
  auto_heal_attempts :: int
  auto_healed :: bool
  resolved_reason :: "string option"
  created_at :: int
  updated_at :: int
  resolved_at :: "int option"
  escalated_at :: "int option"

text \<open>The table \<open>incidents\<close>, keyed by its primary key \<open>id\<close>.\<close>

type_synonym incidents = "string \<rightharpoonup> StoredIncident"

text \<open>
  Modelled from the spec: \<open>alertWebhook\<close> (monitoring/alerts.ts is not among the sources).
  A call hands \<open>{severity, title, body}\<close> to the alert transport; the model records the
  alert handed over.
\<close>

record Alert =
  severity :: Severity
  alert_title :: string
  alert_body :: string

fun priority_text :: "IncidentPriority \<Rightarrow> string" where
  "priority_text P1 = ''P1''"
| "priority_text P2 = ''P2''"
| "priority_text P3 = ''P3''"
| "priority_text P4 = ''P4''"

text \<open>
  \<open>createIncident\<close>: the row inserted takes the column defaults of the migration
  (status OPEN, no heal attempts, both timestamps NOW()). \<open>captureForensicSnapshot\<close>
  catches its own failures, so the snapshot is always a value. The INSERT and the alert
  are awaited outside any \<open>try\<close>: \<open>inserted\<close> is the store's answer to the INSERT (the id
  it generated, or its rejection), \<open>alerted\<close> the alert transport's. The result holds
  what the caller gets (\<open>Inl\<close>: \<open>createIncident\<close> rejects), the table and the alerts
  delivered; a row inserted before the alert rejects stays in the table.
\<close>

record IncidentOpts =
  opt_priority :: IncidentPriority
  opt_title :: string
  opt_invariant :: "string option"
  opt_details :: json

definition new_incident :: "IncidentOpts \<Rightarrow> json \<Rightarrow> int \<Rightarrow> StoredIncident" where
  "new_incident opts forensic now =
     \<lparr>priority = opt_priority opts, status = StatusOPEN, title = opt_title opts,
      invariant = opt_invariant opts, details = opt_details opts,
      forensic_snapshot = Some forensic, auto_heal_attempts = 0, auto_healed = False,
      resolved_reason = None, created_at = now, updated_at = now,
      resolved_at = None, escalated_at = None\<rparr>"

definition incident_alert :: "IncidentOpts \<Rightarrow> string \<Rightarrow> Alert" where
  "incident_alert opts rendered =
     \<lparr>severity = (if opt_priority opts = P1 then CRITICAL
                   else if opt_priority opts = P2 then HIGH
                   else if opt_priority opts = P3 then MEDIUM else LOW),
      alert_title = ''['' @ priority_text (opt_priority opts) @ ''] '' @ opt_title opts,
      alert_body = take 1000 rendered\<rparr>"

definition createIncident ::
  "incidents \<Rightarrow> IncidentOpts \<Rightarrow> (error + string) \<Rightarrow> json \<Rightarrow> string \<Rightarrow> (error + unit) \<Rightarrow> int
     \<Rightarrow> (error + string) \<times> incidents \<times> Alert list" where
  "createIncident tbl opts inserted forensic rendered alerted now =
     (case inserted of
        Inl e \<Rightarrow> (Inl e, tbl, [])
      | Inr new_id \<Rightarrow>
          (case alerted of
             Inl e \<Rightarrow> (Inl e, tbl(new_id \<mapsto> new_incident opts forensic now), [])
           | Inr u \<Rightarrow>
               (Inr new_id, tbl(new_id \<mapsto> new_incident opts forensic now),
                [incident_alert opts rendered])))"

text \<open>\<open>UPDATE incidents SET status = 'RESOLVED', ... WHERE id = incidentId AND status NOT IN ('RESOLVED','CLOSED')\<close>\<close>

definition autoResolve :: "incidents \<Rightarrow> string \<Rightarrow> string \<Rightarrow> int \<Rightarrow> incidents" where
  "autoResolve tbl incidentId reason now =
     (case tbl incidentId of
        None \<Rightarrow> tbl
      | Some inc \<Rightarrow>
          if status inc \<noteq> RESOLVED \<and> status inc \<noteq> StatusCLOSED
          then tbl(incidentId \<mapsto> inc\<lparr>status := RESOLVED, resolved_reason := Some reason,
                                      resolved_at := Some now, auto_healed := True,
                                      updated_at := now\<rparr>)
          else tbl)"

text \<open>
  \<open>escalate\<close>: the SELECT by id, the early return when the row is missing or already
  ESCALATED, then \<open>UPDATE incidents SET status = 'ESCALATED', escalated_at = NOW(),
  updated_at = NOW() WHERE id = incidentId\<close> and the alert.
\<close>

definition escalate :: "incidents \<Rightarrow> string \<Rightarrow> string \<Rightarrow> int \<Rightarrow> incidents \<times> Alert list" where
  "escalate tbl incidentId reason now =
     (case tbl incidentId of
        None \<Rightarrow> (tbl, [])
      | Some inc \<Rightarrow>
          if status inc = ESCALATED then (tbl, [])
          else (tbl(incidentId \<mapsto> inc\<lparr>status := ESCALATED, escalated_at := Some now,
                                       updated_at := now\<rparr>),
                [\<lparr>severity = (if priority inc = P1 then CRITICAL else HIGH),
                  alert_title = ''[ESCALATED]['' @ priority_text (priority inc) @ ''] '' @ title inc,
                  alert_body = ''Escalated after: '' @ reason @
                     [CHR 0x0A] @ ''Forensic snapshot captured at incident creation.''\<rparr>]))"

section \<open>Security engine: sliding-window rate limiter (security-engine.ts)\<close>

record RateWindow =
  timestamps :: "int list"
  blocked :: bool
  blockUntil :: int

type_synonym windows = "string \<rightharpoonup> RateWindow"

definition WINDOW_MS :: int where
  "WINDOW_MS = 60000"

definition fresh_window :: RateWindow where
  "fresh_window = \<lparr>timestamps = [], blocked = False, blockUntil = 0\<rparr>"

text \<open>
  \<open>RateLimiterStore.record\<close> (\<open>record\<close> is a keyword here, hence the name): the map of
  windows before, the key, the limit and \<open>Date.now()\<close>; it returns \<open>{blocked, count}\<close>
  and the map afterwards.
\<close>

definition rl_record :: "windows \<Rightarrow> string \<Rightarrow> int \<Rightarrow> int \<Rightarrow> (bool \<times> nat) \<times> windows" where
  "rl_record ws key limit now =
     (let window = (case ws key of Some w \<Rightarrow> w | None \<Rightarrow> fresh_window)
      in if blocked window \<and> now < blockUntil window
         then ((True, length (timestamps window)), ws)
         else (let window1 = (if blocked window \<and> now \<ge> blockUntil window
                              then fresh_window else window);
                   ts = filter (\<lambda>t. now - t < WINDOW_MS) (timestamps window1) @ [now];
                   count = length ts;
                   window2 = (if int count > limit
                              then window1\<lparr>timestamps := ts, blocked := True,
                                           blockUntil := now + 5 * 60000\<rparr>
                              else window1\<lparr>timestamps := ts\<rparr>)
               in ((blocked window2, count), ws(key \<mapsto> window2))))"

text \<open>A sequence of \<open>record\<close> calls, each (key, clock), on the store of a new limiter.\<close>

fun rl_run :: "windows \<Rightarrow> int \<Rightarrow> (string \<times> int) list \<Rightarrow> windows" where
  "rl_run ws limit [] = ws"
| "rl_run ws limit ((key, now) # rest) = rl_run (snd (rl_record ws key limit now)) limit rest"

section \<open>Security engine: audit chain verification (security-engine.ts)\<close>

text \<open>
  A row of \<open>AuditLog\<close> as the query selects it; both hash columns are nullable. The log
  is given in the order of \<open>createdAt\<close>.
\<close>

record AuditRow =
  audit_id :: string
  row_hash :: "string option"
  prev_hash :: "string option"

text \<open>\<open>lag(a.row_hash) OVER (ORDER BY a."createdAt")\<close>: NULL for the first row.\<close>

fun with_lag :: "string option \<Rightarrow> AuditRow list \<Rightarrow> (AuditRow \<times> string option) list" where
  "with_lag prev [] = []"
| "with_lag prev (r # rs) = (r, prev) # with_lag (row_hash r) rs"

definition audit_query :: "AuditRow list \<Rightarrow> nat \<Rightarrow> (AuditRow \<times> string option) list" where
  "audit_query entries limit = take limit (with_lag None entries)"

text \<open>JavaScript truthiness of a nullable string: neither null nor empty.\<close>

fun truthy :: "string option \<Rightarrow> bool" where
  "truthy None = False"
| "truthy (Some s) = (s \<noteq> [])"

text \<open>The \<open>for\<close> loop: the first row whose check fails, with its \<open>prevRowHash\<close>.\<close>

fun first_tampered :: "(AuditRow \<times> string option) list \<Rightarrow> (AuditRow \<times> string option) option" where
  "first_tampered [] = None"
| "first_tampered ((row, prevRowHash) # rest) =
     (if truthy prevRowHash \<and> prev_hash row \<noteq> prevRowHash
      then Some (row, prevRowHash)
      else first_tampered rest)"

fun json_of :: "string option \<Rightarrow> json" where
  "json_of None = JNull"
| "json_of (Some s) = JStr s"

record VerifyResult =
  valid :: bool
  brokenAt :: "string option"

definition tamper_opts :: "AuditRow \<Rightarrow> string option \<Rightarrow> IncidentOpts" where
  "tamper_opts row prevRowHash =
     \<lparr>opt_priority = P1, opt_title = ''AUDIT LOG TAMPER DETECTED'', opt_invariant = None,
      opt_details = JObj [(''brokenAt'', JStr (audit_id row)),
                          (''expected'', json_of prevRowHash),
                          (''actual'', json_of (prev_hash row))]\<rparr>"

text \<open>
  \<open>verifyAuditChain\<close>: \<open>audit_log\<close> is the store's answer to the query (the log in the
  order of \<open>createdAt\<close>, or the query's rejection). Nothing is caught: a rejection of the
  query or of \<open>createIncident\<close> is the rejection of \<open>verifyAuditChain\<close>.
\<close>

definition verifyAuditChain ::
  "incidents \<Rightarrow> (error + AuditRow list) \<Rightarrow> nat \<Rightarrow> (error + string) \<Rightarrow> json \<Rightarrow> string
     \<Rightarrow> (error + unit) \<Rightarrow> int \<Rightarrow> (error + VerifyResult) \<times> incidents \<times> Alert list" where
  "verifyAuditChain tbl audit_log limit inserted forensic rendered alerted now =
     (case audit_log of
        Inl e \<Rightarrow> (Inl e, tbl, [])
      | Inr entries \<Rightarrow>
          (case first_tampered (audit_query entries limit) of
             None \<Rightarrow> (Inr \<lparr>valid = True, brokenAt = None\<rparr>, tbl, [])
           | Some (row, prevRowHash) \<Rightarrow>
               (case createIncident tbl (tamper_opts row prevRowHash) inserted forensic
                       rendered alerted now of
                  (Inl e, tbl', alerts) \<Rightarrow> (Inl e, tbl', alerts)
                | (Inr iid, tbl', alerts) \<Rightarrow>
                    (Inr \<lparr>valid = False, brokenAt = Some (audit_id row)\<rparr>, tbl', alerts))))"

text \<open>
  The check in the words of the amended claim: a row is compared with the row before it
  when that row has a \<open>row_hash\<close> (neither NULL nor empty); the first row whose
  \<open>prev_hash\<close> differs from such a predecessor's \<open>row_hash\<close> is the broken one (returned
  with its predecessor).
\<close>

fun first_broken_pair :: "AuditRow list \<Rightarrow> (AuditRow \<times> AuditRow) option" where
  "first_broken_pair (a # b # rest) =
     (if truthy (row_hash a) \<and> prev_hash b \<noteq> row_hash a then Some (a, b)
      else first_broken_pair (b # rest))"
| "first_broken_pair rest = None"

text \<open>
  The invariant of the limiter's map for a fixed limit: a window that is not blocked
  holds at most \<open>limit\<close> timestamps, a blocked one at most \<open>limit + 1\<close>.
\<close>

definition rl_inv :: "int \<Rightarrow> windows \<Rightarrow> bool" where
  "rl_inv limit ws = (\<forall>k w. ws k = Some w \<longrightarrow>
      int (length (timestamps w)) \<le> (if blocked w then limit + 1 else limit))"

section \<open>Metrics registry: gauges and thresholds (monitoring/metrics.ts)\<close>

datatype Operator = gt | lt | gte | lte

record Threshold =
  metric :: string
  operator :: Operator
  th_value :: real
  th_severity :: Severity
  cooldownMs :: int

definition THRESHOLDS :: "Threshold list" where
  "THRESHOLDS =
     [\<lparr>metric = ''http.error_rate'', operator = gt, th_value = 3 / 100,
        th_severity = HIGH, cooldownMs = 60000\<rparr>,
      \<lparr>metric = ''http.p95_latency_ms'', operator = gt, th_value = 500,
        th_severity = HIGH, cooldownMs = 60000\<rparr>,
      \<lparr>metric = ''db.active_connections'', operator = gt, th_value = 18,
        th_severity = HIGH, cooldownMs = 120000\<rparr>,
      \<lparr>metric = ''db.healthy'', operator = lt, th_value = 1,
        th_severity = CRITICAL, cooldownMs = 30000\<rparr>,
      \<lparr>metric = ''db.connection_saturation_pct'', operator = gt, th_value = 85,
        th_severity = HIGH, cooldownMs = 120000\<rparr>,
      \<lparr>metric = ''system.health_score'', operator = lt, th_value = 50,
        th_severity = HIGH, cooldownMs = 300000\<rparr>,
      \<lparr>metric = ''system.safe_mode'', operator = gt, th_value = 0,
        th_severity = CRITICAL, cooldownMs = 300000\<rparr>,
      \<lparr>metric = ''perf.overload_score'', operator = gt, th_value = 70,
        th_severity = HIGH, cooldownMs = 300000\<rparr>,
      \<lparr>metric = ''security.auto_blocks'', operator = gt, th_value = 10,
        th_severity = HIGH, cooldownMs = 300000\<rparr>,
      \<lparr>metric = ''process.heap_mb'', operator = gt, th_value = 1024,
        th_severity = MEDIUM, cooldownMs = 600000\<rparr>]"

record MetricsRegistry =
  gauges :: "string \<rightharpoonup> real"
  lastAlert :: "string \<rightharpoonup> int"

fun breached :: "Operator \<Rightarrow> real \<Rightarrow> real \<Rightarrow> bool" where
  "breached gt v bound = (v > bound)"
| "breached lt v bound = (v < bound)"
| "breached gte v bound = (v \<ge> bound)"
| "breached lte v bound = (v \<le> bound)"

text \<open>
  \<open>checkThresholds\<close>: the loop over the thresholds; it returns the \<open>lastAlert\<close> map and
  the \<open>threshold_breach\<close> events emitted, each a threshold with the actual value.
\<close>

fun checkThresholds ::
  "Threshold list \<Rightarrow> (string \<rightharpoonup> int) \<Rightarrow> string \<Rightarrow> real \<Rightarrow> int
     \<Rightarrow> (string \<rightharpoonup> int) \<times> (Threshold \<times> real) list" where
  "checkThresholds [] la n v now = (la, [])"
| "checkThresholds (t # ts) la n v now =
     (if metric t \<noteq> n then checkThresholds ts la n v now
      else if breached (operator t) v (th_value t)
              \<and> now - (case la (metric t) of Some l \<Rightarrow> l | None \<Rightarrow> 0) > cooldownMs t
           then (case checkThresholds ts (la(metric t \<mapsto> now)) n v now of
                   (la', evs) \<Rightarrow> (la', (t, v) # evs))
           else checkThresholds ts la n v now)"

definition gauge ::
  "MetricsRegistry \<Rightarrow> string \<Rightarrow> real \<Rightarrow> int \<Rightarrow> MetricsRegistry \<times> (Threshold \<times> real) list" where
  "gauge reg n v now =
     (case checkThresholds THRESHOLDS (lastAlert reg) n v now of
        (la', evs) \<Rightarrow> (\<lparr>gauges = (gauges reg)(n \<mapsto> v), lastAlert = la'\<rparr>, evs))"

section \<open>Health score (health-score.ts)\<close>

record HealthComponents =
  integrity :: int
  errorRate :: int
  latency :: int
  incidents_score :: int
  backup :: int
  migrations :: int

datatype Grade = GradeA | GradeB | GradeC | GradeD | GradeF

fun grade_text :: "Grade \<Rightarrow> string" where
  "grade_text GradeA = ''A''"
| "grade_text GradeB = ''B''"
| "grade_text GradeC = ''C''"
| "grade_text GradeD = ''D''"
| "grade_text GradeF = ''F''"

text \<open>\<open>getDriftScore\<close>: \<open>row[0]?.score ?? 100\<close> on the newest row of \<open>drift_scores\<close>.\<close>

definition getDriftScore :: "real option \<Rightarrow> real" where
  "getDriftScore newest = (case newest of Some s \<Rightarrow> s | None \<Rightarrow> 100)"

definition scoreIntegrity :: "real option \<Rightarrow> int" where
  "scoreIntegrity newest = round ((getDriftScore newest / 100) * 30)"

definition scoreErrorRate :: "real \<Rightarrow> int" where
  "scoreErrorRate rate =
     (if rate = 0 then 20
      else if rate < 5 / 1000 then 18
      else if rate < 1 / 100 then 15
      else if rate < 3 / 100 then 10
      else if rate < 5 / 100 then 5
      else 0)"

definition scoreLatency :: "real \<Rightarrow> int" where
  "scoreLatency p95 =
     (if p95 = 0 then 15
      else if p95 < 100 then 15
      else if p95 < 200 then 12
      else if p95 < 500 then 8
      else if p95 < 1000 then 4
      else 0)"

text \<open>
  \<open>getIncidentSummary\<close> gives the count of open incidents per priority (a priority with
  none has no entry); \<open>summary['P1'] ?? 0\<close> reads it.
\<close>

type_synonym summary = "IncidentPriority \<rightharpoonup> nat"

definition count_of :: "summary \<Rightarrow> IncidentPriority \<Rightarrow> int" where
  "count_of s p = (case s p of Some c \<Rightarrow> int c | None \<Rightarrow> 0)"

definition scoreIncidents :: "summary \<Rightarrow> int" where
  "scoreIncidents s =
     (let deduction = count_of s P1 * 10 + count_of s P2 * 5 + count_of s P3 * 2 + count_of s P4 * 1
      in max 0 (20 - deduction))"

text \<open>\<open>scoreBackup\<close>: the \<open>validated_at\<close> of the newest PASSED validation, if any, and the clock.\<close>

definition scoreBackup :: "int option \<Rightarrow> int \<Rightarrow> int" where
  "scoreBackup newest now =
     (case newest of
        None \<Rightarrow> 0
      | Some validated_at \<Rightarrow>
          (let ageHrs = real_of_int (now - validated_at) / 3600000
           in if ageHrs < 12 then 10
              else if ageHrs < 24 then 7
              else if ageHrs < 48 then 3
              else 0))"

text \<open>\<open>scoreMigrations\<close>: the count of pending migrations, or the query's failure.\<close>

definition scoreMigrations :: "error + nat \<Rightarrow> int" where
  "scoreMigrations pending =
     (case pending of
        Inr c \<Rightarrow> if c = 0 then 5 else 0
      | Inl e \<Rightarrow> 3)"

text \<open>\<open>p.catch(() => fallback)\<close>\<close>

definition catch :: "error + 'a \<Rightarrow> 'a \<Rightarrow> 'a" where
  "catch p fallback = (case p of Inr v \<Rightarrow> v | Inl e \<Rightarrow> fallback)"

text \<open>The singleton row of \<open>system_mode\<close> (id = 1), absent if the table is empty.\<close>

record SystemMode =
  safe_mode :: bool
  safe_mode_reason :: "string option"
  enabled_at :: "int option"
  enabled_by :: "string option"
  override_token :: "string option"

definition isSafeMode :: "SystemMode option \<Rightarrow> bool" where
  "isSafeMode sm = (case sm of Some row \<Rightarrow> safe_mode row | None \<Rightarrow> False)"

text \<open>Characters outside ASCII in the source's string literals, as their UTF-8 bytes.\<close>

definition em_dash :: string where
  "em_dash = [CHR 0xE2, CHR 0x80, CHR 0x94]"

definition red_circle :: string where
  "red_circle = [CHR 0xF0, CHR 0x9F, CHR 0x94, CHR 0xB4]"

record SafeModeEffect =
  mode_after :: "SystemMode option"
  registry_after :: MetricsRegistry
  alerts_sent :: "Alert list"
  breaches :: "(Threshold \<times> real) list"

definition enableSafeMode ::
  "SystemMode option \<Rightarrow> MetricsRegistry \<Rightarrow> string \<Rightarrow> string \<Rightarrow> int \<Rightarrow> SafeModeEffect" where
  "enableSafeMode sm reg reason enabledBy now =
     (case gauge reg ''system.safe_mode'' 1 now of
        (reg', evs) \<Rightarrow>
          \<lparr>mode_after = map_option (\<lambda>row. row\<lparr>safe_mode := True, safe_mode_reason := Some reason,
                                               enabled_at := Some now,
                                               enabled_by := Some enabledBy\<rparr>) sm,
           registry_after = reg',
           alerts_sent = [\<lparr>severity = CRITICAL,
                           alert_title = red_circle @ '' SAFE MODE ENGAGED '' @ em_dash @
                                         '' Write operations disabled'',
                           alert_body = reason\<rparr>],
           breaches = evs\<rparr>)"

text \<open>Decimal rendering of an integer, for the alert title.\<close>

fun show_nat :: "nat \<Rightarrow> string" where
  "show_nat n = (if n < 10 then [char_of (48 + n)]
                 else show_nat (n div 10) @ [char_of (48 + n mod 10)])"

definition show_int :: "int \<Rightarrow> string" where
  "show_int i = (if i < 0 then ''-'' @ show_nat (nat (- i)) else show_nat (nat i))"

text \<open>
  What \<open>compute\<close> reads: the answers of its queries (\<open>Inl\<close>: the query throws), the two
  metrics, the clock and the rendering of the components in the alert body. The drift
  score and the incident summary are each read twice, once for a component and once for
  the report.
\<close>

record HealthEnv =
  drift_newest :: "error + real option"
  error_rate_gauge :: real
  p95_latency :: real
  incident_summary :: "error + summary"
  backup_newest :: "error + int option"
  pending_migrations :: "error + nat"
  system_mode_row :: "error + SystemMode option"
  report_summary :: "error + summary"
  report_drift_newest :: "error + real option"
  insert_succeeds :: bool
  rendered_components :: string
  clock :: int

record HealthReport =
  score :: int
  grade :: Grade
  components :: HealthComponents
  safeMode :: bool
  timestamp :: int
  report_incidents :: summary
  report_driftScore :: real

record HealthRow =
  row_score :: int
  row_components :: HealthComponents
  row_safe_mode :: bool

record ComputeResult =
  health_report :: HealthReport
  persisted :: HealthRow
  effect :: SafeModeEffect

definition grade_of :: "int \<Rightarrow> Grade" where
  "grade_of s = (if s \<ge> 90 then GradeA
                 else if s \<ge> 75 then GradeB
                 else if s \<ge> 60 then GradeC
                 else if s \<ge> 40 then GradeD else GradeF)"

definition components_of :: "HealthEnv \<Rightarrow> HealthComponents" where
  "components_of env =
     \<lparr>integrity = catch (map_sum (\<lambda>e. e) scoreIntegrity (drift_newest env)) 20,
      errorRate = scoreErrorRate (error_rate_gauge env),
      latency = scoreLatency (p95_latency env),
      incidents_score = catch (map_sum (\<lambda>e. e) scoreIncidents (incident_summary env)) 15,
      backup = catch (map_sum (\<lambda>e. e) (\<lambda>b. scoreBackup b (clock env)) (backup_newest env)) 5,
      migrations = catch (Inr (scoreMigrations (pending_migrations env))) 3\<rparr>"

definition score_of :: "HealthComponents \<Rightarrow> int" where
  "score_of c = fold (\<lambda>b a. a + b)
     [integrity c, errorRate c, latency c, incidents_score c, backup c, migrations c] 0"

definition compute ::
  "HealthEnv \<Rightarrow> MetricsRegistry \<Rightarrow> error + ComputeResult" where
  "compute env reg =
     (let comps = components_of env;
          sc = score_of comps;
          gr = grade_of sc
      in case system_mode_row env of
           Inl e \<Rightarrow> Inl e
         | Inr sm \<Rightarrow>
        (case report_summary env of
           Inl e \<Rightarrow> Inl e
         | Inr incidentSummary \<Rightarrow>
        (case report_drift_newest env of
           Inl e \<Rightarrow> Inl e
         | Inr newest \<Rightarrow>
        (if \<not> insert_succeeds env then Inl StoreError
         else
          (let safe = isSafeMode sm;
               rep = \<lparr>score = sc, grade = gr, components = comps, safeMode = safe,
                      timestamp = clock env, report_incidents = incidentSummary,
                      report_driftScore = getDriftScore newest\<rparr>;
               row = \<lparr>row_score = sc, row_components = comps, row_safe_mode = safe\<rparr>
           in case gauge reg ''system.health_score'' (real_of_int sc) (clock env) of
                (reg1, evs1) \<Rightarrow>
                  (if sc < 40 \<and> \<not> safe
                   then (let critical = \<lparr>severity = CRITICAL,
                                          alert_title = ''System health critical: '' @ show_int sc
                                             @ ''/100 ('' @ grade_text gr @ '')'',
                                          alert_body = rendered_components env\<rparr>
                         in if gr = GradeF
                            then (let eff = enableSafeMode sm reg1
                                        (''Health score F '' @ em_dash @
                                         '' auto-engaged by health engine'')
                                        ''system'' (clock env)
                                  in Inr \<lparr>health_report = rep, persisted = row,
                                          effect = eff\<lparr>alerts_sent := critical # alerts_sent eff,
                                                       breaches := evs1 @ breaches eff\<rparr>\<rparr>)
                            else Inr \<lparr>health_report = rep, persisted = row,
                                      effect = \<lparr>mode_after = sm, registry_after = reg1,
                                                alerts_sent = [critical], breaches = evs1\<rparr>\<rparr>)
                   else Inr \<lparr>health_report = rep, persisted = row,
                             effect = \<lparr>mode_after = sm, registry_after = reg1,
                                       alerts_sent = [], breaches = evs1\<rparr>\<rparr>))))))"

section \<open>Safe-mode middleware (health-score.ts)\<close>

record Request =
  req_method :: string
  url :: "string option"

record ReplyBody =
  error_code :: string
  message :: "string option"
  readOnly :: "bool option"

datatype Handled = Done | Reply int ReplyBody

definition WRITE_METHODS :: "string set" where
  "WRITE_METHODS = {''POST'', ''PUT'', ''PATCH'', ''DELETE''}"

text \<open>\<open>req.url?.startsWith('/system-mode')\<close>: falsy when the request has no url.\<close>

definition is_control_path :: "string option \<Rightarrow> bool" where
  "is_control_path u = (case u of Some p \<Rightarrow> prefix ''/system-mode'' p | None \<Rightarrow> False)"

text \<open>
  The middleware, given what \<open>engine.isSafeMode()\<close> answers for this request (\<open>Inl\<close>: it
  throws). \<open>Done\<close> means \<open>done()\<close> was called, so the request goes on to the handler.
\<close>

definition safeModeMiddleware :: "(error + SystemMode option) \<Rightarrow> Request \<Rightarrow> Handled" where
  "safeModeMiddleware mode req =
     (if req_method req \<notin> WRITE_METHODS then Done
      else if is_control_path (url req) then Done
      else (case mode of
              Inr sm \<Rightarrow>
                if isSafeMode sm
                then Reply 503
                       \<lparr>error_code = ''SERVICE_IN_SAFE_MODE'',
                        message = Some (''System is in safe mode. Write operations are '' @
                           ''temporarily disabled. Contact administrators.''),
                        readOnly = Some True\<rparr>
                else Done
            | Inl e \<Rightarrow>
                Reply 503 \<lparr>error_code = ''SAFE_MODE_CHECK_FAILED'', message = None,
                           readOnly = None\<rparr>))"

section \<open>Drift score: the specification's formula\<close>

lemma spec_weight_cases:
  "spec_weight n \<in> {25, 20, 15, 10, 7, 3, 5}"
  by (simp add: spec_weight_def weights_def)

lemma spec_weight_pos: "0 < spec_weight n"
  using spec_weight_cases [of n] by auto


lemma spec_deduction_le_weight: "spec_deduction r \<le> spec_weight (name r)"
  by (simp add: spec_deduction_def)


lemma round_max_zero: "max 0 (round (x::real)) = round (max 0 x)"
proof (cases "0 \<le> x")
  case True
  then have "0 \<le> round x" by (simp add: round_def)
  with True show ?thesis by (simp add: max_def)
next
  case False
  then have "x < 0" by simp
  then have "round x \<le> round (0::real)" by (intro round_mono) simp
  then have "round x \<le> 0" by simp
  with False show ?thesis by (simp add: max_def)
qed


lemma log10_2_lt_1: "log 10 2 < (1::real)"
proof -
  have "log 10 2 < log 10 (10::real)" by (subst log_less_cancel_iff) simp_all
  then show ?thesis by simp
qed

section \<open>Drift score: the code on names that are not inherited members\<close>

lemma weight_of_plain:
  "n \<notin> set object_prototype_keys \<Longrightarrow> weight_of n = Num (spec_weight n)"
  by (simp add: weight_of_def weights_get_def spec_weight_def split: option.splits)

lemma weight_of_inherited:
  "n \<in> set object_prototype_keys \<Longrightarrow> weight_of n = NaN"
  by (auto simp: weight_of_def weights_get_def weights_def object_prototype_keys_def)

lemma deduction_of_plain:
  "name r \<notin> set object_prototype_keys \<Longrightarrow> deduction_of r = Num (spec_deduction r)"
  by (simp add: deduction_of_def weight_of_plain spec_deduction_def)

lemma fold_drift_step_plain:
  "\<forall>r\<in>set rs. name r \<notin> set object_prototype_keys \<Longrightarrow>
   fold drift_step rs (Num d) =
     Num (d + (\<Sum>r\<leftarrow>filter (\<lambda>r. \<not> passed r) rs. spec_deduction r))"
  by (induction rs arbitrary: d) (simp_all add: drift_step_def deduction_of_plain)

lemma computeDriftScore_plain:
  assumes "\<forall>r\<in>set rs. name r \<notin> set object_prototype_keys"
  shows "computeDriftScore rs = Num (real_of_int (spec_drift_score rs))"
  using fold_drift_step_plain [OF assms, of 0]
  by (simp add: computeDriftScore_def spec_drift_score_def round_max_zero)

lemma deduction_of_empty:
  "name r \<notin> set object_prototype_keys \<Longrightarrow> deduction_of (r\<lparr>violations := []\<rparr>) = Num 0"
  using spec_weight_pos [of "name r"] by (simp add: deduction_of_plain spec_deduction_def)

lemma deduction_of_single:
  "name r \<notin> set object_prototype_keys \<Longrightarrow>
   deduction_of (r\<lparr>violations := [v]\<rparr>) = Num (spec_weight (name r) * log 10 2)"
  using spec_weight_pos [of "name r"] log10_2_lt_1
  by (simp add: deduction_of_plain spec_deduction_def min_def)

lemma fold_drift_step_NaN: "fold drift_step rs NaN = NaN"
  by (induction rs) (simp_all add: drift_step_def)

text \<open>
  C5. The specification's formula gives every name outside the table the weight 5, so
  its result lies in [0, 100] for every input, and on results whose names are not
  inherited members of an object \<open>computeDriftScore\<close> computes exactly that formula
  (\<open>computeDriftScore_plain\<close>). The code reads the weight from a plain object, though:
  for a failed result named \<open>toString\<close> the weight read is the inherited function, not 5,
  and \<open>computeDriftScore\<close> returns NaN where the formula gives 100.
\<close>

theorem computeDriftScore_inherited_name:
  "computeDriftScore
     [\<lparr>name = ''toString'', passed = False, driftScore = 0, violations = [],
       autoCorrected = False\<rparr>] = NaN
   \<and> spec_drift_score
     [\<lparr>name = ''toString'', passed = False, driftScore = 0, violations = [],
       autoCorrected = False\<rparr>] = 100
   \<and> weight_of ''toString'' = NaN \<and> spec_weight ''toString'' = 5"
  by (simp add: computeDriftScore_def drift_step_def deduction_of_def weight_of_def
      weights_get_def weights_def object_prototype_keys_def spec_drift_score_def
      spec_deduction_def spec_weight_def)

section \<open>Invariant engine: a cycle in which checks throw\<close>

lemma run_invariant_throws:
  "isl (check_result run) \<Longrightarrow> run_invariant iv run = [synthetic_failed (inv_name iv)]"
  by (cases "check_result run") (simp_all add: run_invariant_def)

lemma catalogue_names_plain:
  "iv \<in> set INVARIANTS \<Longrightarrow> inv_name iv \<notin> set object_prototype_keys"
  by (auto simp: INVARIANTS_def object_prototype_keys_def)




lemma deduction_of_synthetic:
  "n \<notin> set object_prototype_keys \<Longrightarrow> deduction_of (synthetic_failed n) = Num 0"
  using spec_weight_pos [of n]
  by (simp add: deduction_of_plain spec_deduction_def synthetic_failed_def)

lemma spec_drift_score_all_synthetic:
  "spec_drift_score (map synthetic_failed ns) = 100"
proof -
  have "(\<Sum>r\<leftarrow>filter (\<lambda>r. \<not> passed r) (map synthetic_failed ns). spec_deduction r) = 0"
    using spec_weight_pos
    by (induction ns) (simp_all add: synthetic_failed_def spec_deduction_def)
  then show ?thesis by (simp add: spec_drift_score_def)
qed

lemma computeDriftScore_catalogue_synthetic:
  "computeDriftScore (map synthetic_failed (map inv_name INVARIANTS)) = Num 100"
proof -
  have "\<forall>r\<in>set (map synthetic_failed (map inv_name INVARIANTS)).
          name r \<notin> set object_prototype_keys"
    using catalogue_names_plain by (auto simp: synthetic_failed_def)
  from computeDriftScore_plain [OF this] show ?thesis
    unfolding spec_drift_score_all_synthetic by simp
qed

lemma all_throw_results:
  assumes "\<forall>iv\<in>set INVARIANTS. isl (check_result (env (inv_name iv)))"
  shows "concat (map (\<lambda>iv. run_invariant iv (env (inv_name iv))) INVARIANTS)
         = map synthetic_failed (map inv_name INVARIANTS)"
proof -
  have "\<And>xs. \<forall>iv\<in>set xs. isl (check_result (env (inv_name iv))) \<Longrightarrow>
     concat (map (\<lambda>iv. run_invariant iv (env (inv_name iv))) xs)
       = map synthetic_failed (map inv_name xs)"
    subgoal for xs by (induction xs) (simp_all add: run_invariant_throws)
    done
  then show ?thesis using assms by blast
qed

lemma forward_failed_catalogue:
  "forward_failed (map synthetic_failed (map inv_name INVARIANTS))
     = Inr (map (\<lambda>iv. (synthetic_failed (inv_name iv), inv_priority iv)) INVARIANTS)"
  by (simp add: INVARIANTS_def synthetic_failed_def)

lemma filter_synthetic:
  "filter (\<lambda>r. \<not> passed r) (map synthetic_failed ns) = map synthetic_failed ns"
  by (induction ns) (simp_all add: synthetic_failed_def)


lemma runAll_all_throw:
  assumes "\<forall>iv\<in>set INVARIANTS. isl (check_result (env (inv_name iv)))"
  shows "runAll env True =
     Inr \<lparr>ra_results = map synthetic_failed (map inv_name INVARIANTS),
          ra_driftScore = Num 100, persisted_drift_score = Num 100,
          incident_calls =
            map (\<lambda>iv. (synthetic_failed (inv_name iv), inv_priority iv)) INVARIANTS\<rparr>"
  unfolding runAll_def Let_def all_throw_results [OF assms] filter_synthetic
    forward_failed_catalogue computeDriftScore_catalogue_synthetic
  by simp

text \<open>
  C10. When an invariant's \<open>check\<close> throws, \<open>runAll\<close> records the synthetic failed
  result, whose violation list is empty; that result deducts exactly 0 from the drift
  score (for every invariant of the catalogue, and for every name that is not an
  inherited member of an object). So when every check of the catalogue throws, the drift score computed and
  persisted is 100, and every one of the failed results is still passed to the incident
  manager, with its invariant's priority.
\<close>

theorem check_throws_deducts_nothing:
  "(isl (check_result run) \<longrightarrow> run_invariant iv run = [synthetic_failed (inv_name iv)])
   \<and> violations (synthetic_failed n) = [] \<and> \<not> passed (synthetic_failed n)
   \<and> (n \<notin> set object_prototype_keys \<longrightarrow> deduction_of (synthetic_failed n) = Num 0)
   \<and> (iv \<in> set INVARIANTS \<longrightarrow> deduction_of (synthetic_failed (inv_name iv)) = Num 0)
   \<and> ((\<forall>iv\<in>set INVARIANTS. isl (check_result (env (inv_name iv)))) \<longrightarrow>
        runAll env True =
          Inr \<lparr>ra_results = map synthetic_failed (map inv_name INVARIANTS),
               ra_driftScore = Num 100, persisted_drift_score = Num 100,
               incident_calls =
                 map (\<lambda>iv. (synthetic_failed (inv_name iv), inv_priority iv)) INVARIANTS\<rparr>)"
  using run_invariant_throws [where run = run and iv = iv] deduction_of_synthetic [of n]
    deduction_of_synthetic [OF catalogue_names_plain, of iv] runAll_all_throw [of env]
  by (simp add: synthetic_failed_def)

theorem check_throws_deducts_nothing_witness:
  "run_invariant (hd INVARIANTS)
      \<lparr>check_result = Inl StoreError, autoCorrect_ok = False, persist_ok = False\<rparr>
     = [synthetic_failed ''NO_NEGATIVE_STOCK'']
   \<and> deduction_of (synthetic_failed ''NO_NEGATIVE_STOCK'') = Num 0
   \<and> deduction_of (synthetic_failed ''x'') = Num 0
   \<and> runAll (\<lambda>n. \<lparr>check_result = Inl StoreError, autoCorrect_ok = False, persist_ok = False\<rparr>)
        True =
      Inr \<lparr>ra_results = map synthetic_failed (map inv_name INVARIANTS),
           ra_driftScore = Num 100, persisted_drift_score = Num 100,
           incident_calls =
             map (\<lambda>iv. (synthetic_failed (inv_name iv), inv_priority iv)) INVARIANTS\<rparr>"
  using check_throws_deducts_nothing
    [where run = "\<lparr>check_result = Inl StoreError, autoCorrect_ok = False, persist_ok = False\<rparr>"
       and iv = "hd INVARIANTS" and n = "''x''"
       and env = "\<lambda>n. \<lparr>check_result = Inl StoreError, autoCorrect_ok = False,
                           persist_ok = False\<rparr>"]
  by (simp add: INVARIANTS_def object_prototype_keys_def)
section \<open>Circuit breaker: the HALF_OPEN state\<close>

lemma call_half_open_forwards:
  "state cb = HALF_OPEN \<Longrightarrow> fn_invoked (call cb fn now settled)"
  by (cases fn) (simp_all add: call_def)

lemma call_half_open_success:
  "state cb = HALF_OPEN \<Longrightarrow>
   breaker (call cb (Inr v) now settled) =
     (if successCount cb + 1 \<ge> halfOpenProbes cb
      then cb\<lparr>state := CLOSED, failureCount := 0, successCount := 0, lastStateChange := settled\<rparr>
      else cb\<lparr>failureCount := 0, successCount := successCount cb + 1\<rparr>)"
  by (simp add: call_def onSuccess_def transitionTo_def Let_def)

lemma call_half_open_failure:
  "state cb = HALF_OPEN \<Longrightarrow>
   state (breaker (call cb (Inl e) now settled)) =
     (if failureCount cb + 1 \<ge> failureThreshold cb then OPEN else HALF_OPEN)"
  by (simp add: call_def onFailure_def transitionTo_def Let_def)

text \<open>
  C7. In HALF_OPEN calls are forwarded, a success increments the probe counter and the
  breaker closes when the counter reaches \<open>halfOpenProbes\<close> (the three lemmas above).
  A failure, however, reopens the breaker only when \<open>failureCount\<close> reaches
  \<open>failureThreshold\<close>, and a successful probe has reset \<open>failureCount\<close> to 0. The
  breaker of the source's \<open>dbCircuitBreaker\<close> (threshold 5, timeout 30 s, 2 probes) is
  opened by five failures, admits a successful probe after the timeout, and is still
  HALF_OPEN after the failure that follows: it has not gone back to OPEN.
\<close>

theorem half_open_failure_after_probe:
  "calls (new_CircuitBreaker ''database'' 5 30000 2 0)
     [(Inl StoreError, 1), (Inl StoreError, 2), (Inl StoreError, 3), (Inl StoreError, 4),
      (Inl StoreError, 5), (Inr (), 30006)]
     = \<lparr>cb_name = ''database'', failureThreshold = 5, resetTimeoutMs = 30000,
        halfOpenProbes = 2, state = HALF_OPEN, failureCount = 0, successCount = 1,
        lastStateChange = 30006\<rparr>
   \<and> state (calls (new_CircuitBreaker ''database'' 5 30000 2 0)
     [(Inl StoreError, 1), (Inl StoreError, 2), (Inl StoreError, 3), (Inl StoreError, 4),
      (Inl StoreError, 5), (Inr (), 30006), (Inl StoreError, 30007)]) = HALF_OPEN"
  by (simp add: new_CircuitBreaker_def call_def onFailure_def onSuccess_def transitionTo_def Let_def)

section \<open>Idempotency registry: a lost insert\<close>

lemma execute_cache_hit:
  "select_live tbl key now = Some existing \<Longrightarrow> \<not> locked existing \<Longrightarrow>
   execute (Suc fuel) others tbl key fn ttlSeconds now =
     Some \<lparr>outcome = Inr \<lparr>cached = True, statusCode = status_code existing,
                            body = response_body existing\<rparr>,
           fn_calls = 0, table_after = tbl\<rparr>"
  by simp

lemma execute_waits:
  "select_live tbl key now = Some existing \<Longrightarrow> locked existing \<Longrightarrow>
   execute (Suc fuel) others tbl key fn ttlSeconds now =
     execute fuel others (while_asleep others tbl) key fn ttlSeconds (now + 500)"
  by simp

lemma execute_alone:
  "- 2147483648 \<le> st \<Longrightarrow> st \<le> 2147483647 \<Longrightarrow>
   execute (Suc fuel) alone Map.empty key (Inr (st, b)) ttlSeconds now =
     Some \<lparr>outcome = Inr \<lparr>cached = False, statusCode = Some st, body = Some b\<rparr>,
           fn_calls = 1,
           table_after = [key \<mapsto> \<lparr>response_body = Some b, status_code = Some st,
                                    locked = False, locked_at = Some now,
                                    expires_at = now + ttlSeconds * 1000\<rparr>]\<rparr>"
  by (simp add: alone_def select_live_def insert_lock_def store_response_def)

lemma execute_status_out_of_range:
  "execute (Suc fuel) alone Map.empty key (Inr (2147483648, b)) ttlSeconds now =
     Some \<lparr>outcome = Inl StoreError, fn_calls = 1, table_after = Map.empty\<rparr>"
  by (simp add: alone_def select_live_def insert_lock_def store_response_def delete_key_def)

text \<open>
  C1. Caller A finds no live row for key K1. Before A's INSERT, caller B inserts the
  locked row for K1 (\<open>after_select\<close>). A's INSERT then conflicts and inserts nothing
  (0 rows), while the row is live and locked by B. \<open>execute\<close> does not read the result of
  its INSERT: A does not restart at the lookup, it runs \<open>fn\<close> (one call, on top of B's)
  and returns \<open>cached = false\<close>.
\<close>

theorem execute_runs_fn_after_lost_insert:
  "select_live Map.empty ''K1'' 0 = None
   \<and> snd (insert_lock (fst (insert_lock Map.empty ''K1'' 0 86400)) ''K1'' 0 86400) = 0
   \<and> map_option locked (select_live (fst (insert_lock Map.empty ''K1'' 0 86400)) ''K1'' 0) = Some True
   \<and> map_option fn_calls
       (execute 1 \<lparr>after_select = (\<lambda>t. fst (insert_lock t ''K1'' 0 86400)),
                   while_asleep = (\<lambda>t. t), during_fn = (\<lambda>t. t)\<rparr>
          Map.empty ''K1'' (Inr (201, ''A'')) 86400 0) = Some 1
   \<and> map_option outcome
       (execute 1 \<lparr>after_select = (\<lambda>t. fst (insert_lock t ''K1'' 0 86400)),
                   while_asleep = (\<lambda>t. t), during_fn = (\<lambda>t. t)\<rparr>
          Map.empty ''K1'' (Inr (201, ''A'')) 86400 0)
       = Some (Inr \<lparr>cached = False, statusCode = Some 201, body = Some ''A''\<rparr>)"
  by (simp add: select_live_def insert_lock_def store_response_def)

section \<open>Incident manager: escalation\<close>

lemma escalate_twice:
  "escalate (fst (escalate tbl i reason now)) i reason' now' = (fst (escalate tbl i reason now), [])"
  by (cases "tbl i") (simp_all add: escalate_def)

lemma escalate_open:
  "tbl i = Some inc \<Longrightarrow> status inc = StatusOPEN \<or> status inc = AUTO_HEALING \<Longrightarrow>
   fst (escalate tbl i reason now) i
     = Some (inc\<lparr>status := ESCALATED, escalated_at := Some now, updated_at := now\<rparr>)"
  by (auto simp add: escalate_def)

text \<open>
  C2. \<open>escalate\<close> moves an OPEN or AUTO_HEALING incident to ESCALATED and sets
  \<open>escalated_at\<close>, and a second call changes nothing (the two lemmas above). Its only
  guard is the test for ESCALATED, so it also moves a RESOLVED and a CLOSED incident to
  ESCALATED; \<open>autoResolve\<close>, whose UPDATE carries the guard
  \<open>status NOT IN ('RESOLVED','CLOSED')\<close>, leaves such an incident as it is.
\<close>

theorem escalate_leaves_terminal_state:
  "fst (escalate (tbl(i \<mapsto> inc\<lparr>status := RESOLVED\<rparr>)) i reason now) i
     = Some (inc\<lparr>status := ESCALATED, escalated_at := Some now, updated_at := now\<rparr>)
   \<and> fst (escalate (tbl(i \<mapsto> inc\<lparr>status := StatusCLOSED\<rparr>)) i reason now) i
     = Some (inc\<lparr>status := ESCALATED, escalated_at := Some now, updated_at := now\<rparr>)
   \<and> autoResolve (tbl(i \<mapsto> inc\<lparr>status := StatusCLOSED\<rparr>)) i reason now
     = tbl(i \<mapsto> inc\<lparr>status := StatusCLOSED\<rparr>)"
  by (simp add: escalate_def autoResolve_def)

section \<open>Rate limiter: the window never outgrows the limit\<close>

lemma rl_inv_empty: "0 \<le> limit \<Longrightarrow> rl_inv limit Map.empty"
  by (simp add: rl_inv_def)

lemma length_slide:
  "int (length (filter P ts @ [now])) \<le> int (length ts) + 1"
  using length_filter_le [of P ts] by simp

lemma rl_record_inv:
  assumes "0 \<le> limit" and "rl_inv limit ws"
  shows "rl_inv limit (snd (rl_record ws key limit now))"
proof -
  define window where "window = (case ws key of Some w \<Rightarrow> w | None \<Rightarrow> fresh_window)"
  define window1 where
    "window1 = (if blocked window \<and> now \<ge> blockUntil window then fresh_window else window)"
  define ts where "ts = filter (\<lambda>t. now - t < WINDOW_MS) (timestamps window1) @ [now]"
  have w_bound: "int (length (timestamps window)) \<le> (if blocked window then limit + 1 else limit)"
    using assms by (cases "ws key") (auto simp: window_def fresh_window_def rl_inv_def)
  show ?thesis
  proof (cases "blocked window \<and> now < blockUntil window")
    case True
    then show ?thesis using assms(2)
      by (simp add: rl_record_def Let_def window_def [symmetric])
  next
    case False
    have w1: "\<not> blocked window1 \<and> int (length (timestamps window1)) \<le> limit"
      using False w_bound assms(1) by (auto simp: window1_def fresh_window_def)
    have ts_le: "int (length ts) \<le> limit + 1"
      using length_slide [of "\<lambda>t. now - t < WINDOW_MS" "timestamps window1" now] w1
      unfolding ts_def by linarith
    have eq: "snd (rl_record ws key limit now) =
        ws(key \<mapsto> (if int (length ts) > limit
                     then window1\<lparr>timestamps := ts, blocked := True, blockUntil := now + 5 * 60000\<rparr>
                     else window1\<lparr>timestamps := ts\<rparr>))"
      using False unfolding rl_record_def Let_def ts_def window1_def window_def
      by auto
    show ?thesis
      unfolding eq using assms(2) ts_le w1
      by (auto simp: rl_inv_def)
  qed
qed

lemma rl_run_inv:
  "0 \<le> limit \<Longrightarrow> rl_inv limit ws \<Longrightarrow> rl_inv limit (rl_run ws limit cs)"
  by (induction ws limit cs rule: rl_run.induct) (simp_all add: rl_record_inv)

lemma rl_inv_bound:
  assumes "rl_inv limit ws" and "ws k = Some w"
  shows "int (length (timestamps w)) \<le> limit + 1"
proof -
  have "int (length (timestamps w)) \<le> (if blocked w then limit + 1 else limit)"
    using assms unfolding rl_inv_def by blast
  then show ?thesis by (simp split: if_splits)
qed

lemma rl_record_blocked:
  "ws key = Some w \<Longrightarrow> blocked w \<Longrightarrow> now < blockUntil w \<Longrightarrow>
   rl_record ws key limit now = ((True, length (timestamps w)), ws)"
  by (simp add: rl_record_def)

lemma rl_record_reset:
  "ws key = Some w \<Longrightarrow> blocked w \<Longrightarrow> blockUntil w \<le> now \<Longrightarrow>
   map_option timestamps (snd (rl_record ws key limit now) key) = Some [now]"
  by (simp add: rl_record_def Let_def fresh_window_def WINDOW_MS_def)

text \<open>
  C9. For a limit that is not negative and every sequence of \<open>record\<close> calls (any keys,
  any clock readings) on a new limiter, no key's window ever stores more than
  \<open>limit + 1\<close> timestamps, so no 60-second window holds more. A call for a blocked key
  before \<open>blockUntil\<close> returns blocked and leaves the store as it was, so it appends
  nothing; a call at or after \<open>blockUntil\<close> resets the window, which then holds the
  timestamp of that call alone.
\<close>

theorem rate_limiter_window_bound:
  "(0 \<le> limit \<and> rl_run Map.empty limit cs k = Some w \<longrightarrow>
      int (length (timestamps w)) \<le> limit + 1)
   \<and> (ws key = Some w' \<and> blocked w' \<and> now < blockUntil w' \<longrightarrow>
      rl_record ws key limit' now = ((True, length (timestamps w')), ws))
   \<and> (wsb keyb = Some wb \<and> blocked wb \<and> blockUntil wb \<le> nowb \<longrightarrow>
      map_option timestamps (snd (rl_record wsb keyb limitb nowb) keyb) = Some [nowb])"
  using rl_inv_bound [OF rl_run_inv [OF _ rl_inv_empty], of limit cs k w]
    rl_record_blocked [of ws key w' now limit'] rl_record_reset [of wsb keyb wb nowb limitb]
  by blast

theorem rate_limiter_window_bound_witness:
  "rl_run Map.empty 1 [(''ip:10.0.0.1'', 0), (''ip:10.0.0.1'', 1)] ''ip:10.0.0.1''
     = Some \<lparr>timestamps = [0, 1], blocked = True, blockUntil = 300001\<rparr>
   \<and> int (length (timestamps \<lparr>timestamps = [0, 1], blocked = True, blockUntil = 300001\<rparr>)) \<le> 1 + 1
   \<and> rl_record [''ip:10.0.0.1'' \<mapsto> \<lparr>timestamps = [0, 1], blocked = True, blockUntil = 300001\<rparr>]
        ''ip:10.0.0.1'' 1 2
       = ((True, 2), [''ip:10.0.0.1'' \<mapsto> \<lparr>timestamps = [0, 1], blocked = True, blockUntil = 300001\<rparr>])
   \<and> map_option timestamps
        (snd (rl_record [''ip:10.0.0.1'' \<mapsto> \<lparr>timestamps = [0, 1], blocked = True, blockUntil = 300001\<rparr>]
           ''ip:10.0.0.1'' 1 300001) ''ip:10.0.0.1'') = Some [300001]"
  using rate_limiter_window_bound
    [where limit = 1 and cs = "[(''ip:10.0.0.1'', 0), (''ip:10.0.0.1'', 1)]"
       and k = "''ip:10.0.0.1''"
       and w = "\<lparr>timestamps = [0, 1], blocked = True, blockUntil = 300001\<rparr>"
       and ws = "[''ip:10.0.0.1'' \<mapsto> \<lparr>timestamps = [0, 1], blocked = True, blockUntil = 300001\<rparr>]"
       and key = "''ip:10.0.0.1''"
       and w' = "\<lparr>timestamps = [0, 1], blocked = True, blockUntil = 300001\<rparr>"
       and now = 2 and limit' = 1
       and wsb = "[''ip:10.0.0.1'' \<mapsto> \<lparr>timestamps = [0, 1], blocked = True, blockUntil = 300001\<rparr>]"
       and keyb = "''ip:10.0.0.1''"
       and wb = "\<lparr>timestamps = [0, 1], blocked = True, blockUntil = 300001\<rparr>"
       and nowb = 300001 and limitb = 1]
  by (simp add: rl_record_def fresh_window_def WINDOW_MS_def Let_def)

section \<open>Audit chain verification\<close>

lemma take_with_lag: "take n (with_lag prev rs) = with_lag prev (take n rs)"
  by (induction rs arbitrary: n prev) (simp_all add: take_Cons split: nat.splits)

lemma first_tampered_with_lag:
  "first_tampered (with_lag (row_hash a) rs)
     = map_option (\<lambda>(p, b). (b, row_hash p)) (first_broken_pair (a # rs))"
  by (induction rs arbitrary: a) simp_all

lemma audit_query_links:
  "first_tampered (audit_query entries limit)
     = map_option (\<lambda>(p, b). (b, row_hash p)) (first_broken_pair (take limit entries))"
proof (cases "take limit entries")
  case Nil
  show ?thesis unfolding audit_query_def take_with_lag Nil by simp
next
  case (Cons a rs)
  show ?thesis
    using first_tampered_with_lag [of a rs]
    unfolding audit_query_def take_with_lag Cons by simp
qed

lemma verifyAuditChain_first_row:
  "verifyAuditChain tbl (Inr (first\<lparr>prev_hash := p\<rparr> # others)) limit inserted forensic rendered
      alerted now
     = verifyAuditChain tbl (Inr (first # others)) limit inserted forensic rendered alerted now"
  by (cases limit) (simp_all add: verifyAuditChain_def audit_query_def take_Cons)

text \<open>
  C4 (as amended). For the first \<open>limit\<close> rows of the audit log in the order of
  \<open>created_at\<close>, \<open>verifyAuditChain\<close> compares the \<open>prev_hash\<close> of a row with the
  \<open>row_hash\<close> of the row before it whenever that row has a \<open>row_hash\<close> (neither NULL
  nor empty). The first row's \<open>prev_hash\<close> is compared with nothing, the sentinel
  GENESIS included, and the result does not depend on it; a row that follows a row
  without \<open>row_hash\<close> is not compared either. At the first mismatch it creates a P1
  incident whose details hold the broken row's id, the expected and the actual hash,
  and returns \<open>{valid: false, brokenAt}\<close>; when no compared link differs it returns
  \<open>{valid: true}\<close> and creates nothing. These are returned values when the query, the
  incident's INSERT and the alert succeed; when one of them rejects, \<open>verifyAuditChain\<close>
  rejects with that error (after a rejected alert the incident row exists already).
\<close>

theorem verifyAuditChain_links:
  "verifyAuditChain tbl (Inr entries) limit inserted forensic rendered alerted now =
     (case first_broken_pair (take limit entries) of
        None \<Rightarrow> (Inr \<lparr>valid = True, brokenAt = None\<rparr>, tbl, [])
      | Some (a, b) \<Rightarrow>
          (case inserted of
             Inl e \<Rightarrow> (Inl e, tbl, [])
           | Inr new_id \<Rightarrow>
               (case alerted of
                  Inl e \<Rightarrow> Inl e
                | Inr u \<Rightarrow> Inr \<lparr>valid = False, brokenAt = Some (audit_id b)\<rparr>,
                tbl(new_id \<mapsto>
                  \<lparr>priority = P1, status = StatusOPEN, title = ''AUDIT LOG TAMPER DETECTED'',
                   invariant = None,
                   details = JObj [(''brokenAt'', JStr (audit_id b)),
                                   (''expected'', json_of (row_hash a)),
                                   (''actual'', json_of (prev_hash b))],
                   forensic_snapshot = Some forensic, auto_heal_attempts = 0,
                   auto_healed = False, resolved_reason = None, created_at = now,
                   updated_at = now, resolved_at = None, escalated_at = None\<rparr>),
                (case alerted of
                   Inl e \<Rightarrow> []
                 | Inr u \<Rightarrow> [\<lparr>severity = CRITICAL,
                              alert_title = ''[P1] AUDIT LOG TAMPER DETECTED'',
                              alert_body = take 1000 rendered\<rparr>]))))
   \<and> verifyAuditChain tbl (Inl err) limit inserted forensic rendered alerted now
       = (Inl err, tbl, [])
   \<and> verifyAuditChain tbl (Inr (first\<lparr>prev_hash := p\<rparr> # others)) limit inserted forensic
         rendered alerted now
       = verifyAuditChain tbl (Inr (first # others)) limit inserted forensic rendered alerted now"
proof -
  have A: "verifyAuditChain tbl (Inl err) limit inserted forensic rendered alerted now
       = (Inl err, tbl, [])"
    by (simp add: verifyAuditChain_def)
  have B: "verifyAuditChain tbl (Inr entries) limit inserted forensic rendered alerted now =
     (case first_broken_pair (take limit entries) of
        None \<Rightarrow> (Inr \<lparr>valid = True, brokenAt = None\<rparr>, tbl, [])
      | Some (a, b) \<Rightarrow>
          (case inserted of
             Inl e \<Rightarrow> (Inl e, tbl, [])
           | Inr new_id \<Rightarrow>
               (case alerted of
                  Inl e \<Rightarrow> Inl e
                | Inr u \<Rightarrow> Inr \<lparr>valid = False, brokenAt = Some (audit_id b)\<rparr>,
                tbl(new_id \<mapsto>
                  \<lparr>priority = P1, status = StatusOPEN, title = ''AUDIT LOG TAMPER DETECTED'',
                   invariant = None,
                   details = JObj [(''brokenAt'', JStr (audit_id b)),
                                   (''expected'', json_of (row_hash a)),
                                   (''actual'', json_of (prev_hash b))],
                   forensic_snapshot = Some forensic, auto_heal_attempts = 0,
                   auto_healed = False, resolved_reason = None, created_at = now,
                   updated_at = now, resolved_at = None, escalated_at = None\<rparr>),
                (case alerted of
                   Inl e \<Rightarrow> []
                 | Inr u \<Rightarrow> [\<lparr>severity = CRITICAL,
                              alert_title = ''[P1] AUDIT LOG TAMPER DETECTED'',
                              alert_body = take 1000 rendered\<rparr>]))))"
    unfolding verifyAuditChain_def sum.case audit_query_links
    by (cases "first_broken_pair (take limit entries)")
       (auto simp: createIncident_def tamper_opts_def new_incident_def incident_alert_def
          split: sum.splits)
  show ?thesis using A B verifyAuditChain_first_row by blast
qed

theorem verifyAuditChain_links_witness:
  "verifyAuditChain Map.empty
       (Inr [\<lparr>audit_id = ''a1'', row_hash = Some ''h1'', prev_hash = Some ''GENESIS''\<rparr>,
             \<lparr>audit_id = ''a2'', row_hash = Some ''h2'', prev_hash = Some ''bogus''\<rparr>,
             \<lparr>audit_id = ''a3'', row_hash = Some ''h3'', prev_hash = Some ''h2''\<rparr>])
       1000 (Inr ''inc-1'') JNull ''rendered'' (Inr ()) 7
     = (Inr \<lparr>valid = False, brokenAt = Some ''a2''\<rparr>,
        [''inc-1'' \<mapsto>
          \<lparr>priority = P1, status = StatusOPEN, title = ''AUDIT LOG TAMPER DETECTED'',
           invariant = None,
           details = JObj [(''brokenAt'', JStr ''a2''), (''expected'', JStr ''h1''),
                           (''actual'', JStr ''bogus'')],
           forensic_snapshot = Some JNull, auto_heal_attempts = 0, auto_healed = False,
           resolved_reason = None, created_at = 7, updated_at = 7,
           resolved_at = None, escalated_at = None\<rparr>],
        [\<lparr>severity = CRITICAL, alert_title = ''[P1] AUDIT LOG TAMPER DETECTED'',
          alert_body = ''rendered''\<rparr>])"
  using verifyAuditChain_links
    [where limit = 1000
       and entries = "[\<lparr>audit_id = ''a1'', row_hash = Some ''h1'', prev_hash = Some ''GENESIS''\<rparr>,
                       \<lparr>audit_id = ''a2'', row_hash = Some ''h2'', prev_hash = Some ''bogus''\<rparr>,
                       \<lparr>audit_id = ''a3'', row_hash = Some ''h3'', prev_hash = Some ''h2''\<rparr>]"
       and tbl = Map.empty and inserted = "Inr ''inc-1''" and forensic = JNull
       and rendered = "''rendered''" and alerted = "Inr ()" and now = 7]
  by simp

text \<open>
  C4 as stated fails in three ways. A log whose first row carries a \<open>prev_hash\<close> other
  than GENESIS, and whose later links all match, verifies as valid and opens no
  incident. A forged \<open>prev_hash\<close> on a row that follows a row without \<open>row_hash\<close> (a row
  older than the hash columns) verifies as valid too. And when a mismatch is found but
  the incident's INSERT is rejected, \<open>verifyAuditChain\<close> rejects: an exception, not
  \<open>{valid: false}\<close>.
\<close>

theorem verifyAuditChain_first_row_counterexample:
  "prev_hash \<lparr>audit_id = ''a1'', row_hash = Some ''h1'', prev_hash = Some ''BOGUS''\<rparr>
     \<noteq> Some ''GENESIS''
   \<and> verifyAuditChain Map.empty
       (Inr [\<lparr>audit_id = ''a1'', row_hash = Some ''h1'', prev_hash = Some ''BOGUS''\<rparr>,
             \<lparr>audit_id = ''a2'', row_hash = Some ''h2'', prev_hash = Some ''h1''\<rparr>])
       1000 (Inr ''inc-1'') JNull [] (Inr ()) 0
     = (Inr \<lparr>valid = True, brokenAt = None\<rparr>, Map.empty, [])
   \<and> verifyAuditChain Map.empty
       (Inr [\<lparr>audit_id = ''a0'', row_hash = None, prev_hash = None\<rparr>,
             \<lparr>audit_id = ''a1'', row_hash = Some ''h1'', prev_hash = Some ''FORGED''\<rparr>])
       1000 (Inr ''inc-1'') JNull [] (Inr ()) 0
     = (Inr \<lparr>valid = True, brokenAt = None\<rparr>, Map.empty, [])
   \<and> verifyAuditChain Map.empty
       (Inr [\<lparr>audit_id = ''a1'', row_hash = Some ''h1'', prev_hash = Some ''GENESIS''\<rparr>,
             \<lparr>audit_id = ''a2'', row_hash = Some ''h2'', prev_hash = Some ''bogus''\<rparr>])
       1000 (Inl StoreError) JNull [] (Inr ()) 0
     = (Inl StoreError, Map.empty, [])"
  by (simp add: verifyAuditChain_def audit_query_def createIncident_def)

section \<open>Safe-mode middleware\<close>

text \<open>
  C8. A request whose method is not POST, PUT, PATCH or DELETE, and a request whose path
  begins with \<open>/system-mode\<close>, pass through (\<open>done()\<close> is called). For a write request
  to any other path: when safe mode is enabled the middleware replies 503 with
  \<open>SERVICE_IN_SAFE_MODE\<close> and \<open>readOnly: true\<close> and does not call \<open>done()\<close>, when it
  is off the request passes, and when the safe-mode check throws the middleware replies
  503 (fails closed).
\<close>

theorem safeModeMiddleware_gate:
  "(req_method reqa \<notin> WRITE_METHODS \<longrightarrow> safeModeMiddleware modea reqa = Done)
   \<and> (is_control_path (url reqb) \<longrightarrow> safeModeMiddleware modeb reqb = Done)
   \<and> (req_method req \<in> WRITE_METHODS \<and> \<not> is_control_path (url req) \<longrightarrow>
        safeModeMiddleware (Inr sm) req =
          (if isSafeMode sm
           then Reply 503 \<lparr>error_code = ''SERVICE_IN_SAFE_MODE'',
                  message = Some (''System is in safe mode. Write operations are '' @
                     ''temporarily disabled. Contact administrators.''),
                  readOnly = Some True\<rparr>
           else Done)
        \<and> safeModeMiddleware (Inl e) req =
            Reply 503 \<lparr>error_code = ''SAFE_MODE_CHECK_FAILED'', message = None, readOnly = None\<rparr>)"
  by (simp add: safeModeMiddleware_def)


theorem safeModeMiddleware_gate_witness:
  "safeModeMiddleware (Inl StoreError) \<lparr>req_method = ''GET'', url = Some ''/api/sales''\<rparr> = Done
   \<and> safeModeMiddleware (Inl StoreError) \<lparr>req_method = ''DELETE'', url = Some ''/system-mode/safe''\<rparr>
       = Done
   \<and> safeModeMiddleware
        (Inr (Some \<lparr>safe_mode = True, safe_mode_reason = None, enabled_at = None,
                      enabled_by = None, override_token = None\<rparr>))
        \<lparr>req_method = ''POST'', url = Some ''/api/sales''\<rparr>
       = Reply 503 \<lparr>error_code = ''SERVICE_IN_SAFE_MODE'',
                  message = Some (''System is in safe mode. Write operations are '' @
                     ''temporarily disabled. Contact administrators.''),
                  readOnly = Some True\<rparr>
   \<and> safeModeMiddleware (Inl StoreError) \<lparr>req_method = ''POST'', url = Some ''/api/sales''\<rparr>
       = Reply 503 \<lparr>error_code = ''SAFE_MODE_CHECK_FAILED'', message = None, readOnly = None\<rparr>"
  using safeModeMiddleware_gate
    [where reqa = "\<lparr>req_method = ''GET'', url = Some ''/api/sales''\<rparr>" and modea = "Inl StoreError"
       and reqb = "\<lparr>req_method = ''DELETE'', url = Some ''/system-mode/safe''\<rparr>"
       and modeb = "Inl StoreError"
       and req = "\<lparr>req_method = ''POST'', url = Some ''/api/sales''\<rparr>"
       and sm = "Some \<lparr>safe_mode = True, safe_mode_reason = None, enabled_at = None,
                         enabled_by = None, override_token = None\<rparr>"
       and e = StoreError]
  by (simp add: WRITE_METHODS_def is_control_path_def isSafeMode_def)

section \<open>Health score: components, score and grade\<close>










lemma compute_report:
  assumes "compute env reg = Inr res"
  shows "components (health_report res) = components_of env
       \<and> score (health_report res) = score_of (components_of env)
       \<and> grade (health_report res) = grade_of (score_of (components_of env))
       \<and> row_score (persisted res) = score_of (components_of env)
       \<and> row_components (persisted res) = components_of env"
  using assms
  by (auto simp: compute_def Let_def enableSafeMode_def
       split: sum.splits if_splits prod.splits)


lemma checkThresholds_health_score:
  "checkThresholds THRESHOLDS la ''system.health_score'' v now =
     (if v < 50 \<and> now - (case la ''system.health_score'' of Some l \<Rightarrow> l | None \<Rightarrow> 0) > 300000
      then (la(''system.health_score'' \<mapsto> now),
            [(\<lparr>metric = ''system.health_score'', operator = lt, th_value = 50,
               th_severity = HIGH, cooldownMs = 300000\<rparr>, v)])
      else (la, []))"
  by (simp add: THRESHOLDS_def)

lemma gauge_health_score:
  "gauge reg ''system.health_score'' v now =
     (if v < 50 \<and> now - (case lastAlert reg ''system.health_score'' of Some l \<Rightarrow> l | None \<Rightarrow> 0) > 300000
      then (\<lparr>gauges = (gauges reg)(''system.health_score'' \<mapsto> v),
              lastAlert = (lastAlert reg)(''system.health_score'' \<mapsto> now)\<rparr>,
            [(\<lparr>metric = ''system.health_score'', operator = lt, th_value = 50,
               th_severity = HIGH, cooldownMs = 300000\<rparr>, v)])
      else (\<lparr>gauges = (gauges reg)(''system.health_score'' \<mapsto> v), lastAlert = lastAlert reg\<rparr>, []))"
  by (simp add: gauge_def checkThresholds_health_score)

lemmas health_defs =
  components_of_def catch_def scoreErrorRate_def scoreLatency_def scoreMigrations_def
  scoreIntegrity_def getDriftScore_def scoreIncidents_def count_of_def scoreBackup_def
  score_of_def grade_of_def isSafeMode_def




section \<open>Health score: alerts and safe mode\<close>

lemma compute_below_40:
  assumes "compute env reg = Inr res" and "system_mode_row env = Inr (Some row)"
    and "score (health_report res) < 40" and "\<not> safe_mode row"
  shows "mode_after (effect res) =
           Some (row\<lparr>safe_mode := True,
                     safe_mode_reason := Some (''Health score F '' @ em_dash @
                                                '' auto-engaged by health engine''),
                     enabled_at := Some (clock env), enabled_by := Some ''system''\<rparr>)
       \<and> map severity (alerts_sent (effect res)) = [CRITICAL, CRITICAL]"
  using assms
  by (auto simp: compute_def Let_def enableSafeMode_def isSafeMode_def grade_of_def
       split: sum.splits if_splits prod.splits)

lemma compute_40_49:
  assumes "compute env reg = Inr res" and "system_mode_row env = Inr sm"
    and "40 \<le> score (health_report res)" and "score (health_report res) \<le> 49"
  shows "alerts_sent (effect res) = [] \<and> mode_after (effect res) = sm
       \<and> breaches (effect res) =
           (if clock env - (case lastAlert reg ''system.health_score'' of
                              Some l \<Rightarrow> l | None \<Rightarrow> 0) > 300000
            then [(\<lparr>metric = ''system.health_score'', operator = lt, th_value = 50,
                     th_severity = HIGH, cooldownMs = 300000\<rparr>,
                   real_of_int (score (health_report res)))]
            else [])"
  using assms
  by (auto simp: compute_def Let_def gauge_health_score
       split: sum.splits if_splits prod.splits)

text \<open>
  C3 (as amended). When the score just computed is below 40 and safe mode is off (the
  singleton row of \<open>system_mode\<close> exists), \<open>compute\<close> sends a CRITICAL alert and
  enables safe mode with the reason "Health score F - auto-engaged by health engine"
  (with an em dash), which begins with "Health score F"; enabling sends a second CRITICAL
  alert. For every score between 40 and 49 inclusive \<open>compute\<close> sends no alert and
  leaves safe mode as it is; the only signal is the \<open>threshold_breach\<close> event of the
  gauge \<open>system.health_score\<close> (threshold below 50), whose severity is HIGH and which is
  emitted at most once per cooldown of 300 s.
\<close>

theorem compute_safe_mode_engagement:
  assumes "compute env reg = Inr res" and "system_mode_row env = Inr (Some row)"
  shows "(score (health_report res) < 40 \<and> \<not> safe_mode row \<longrightarrow>
            mode_after (effect res) =
              Some (row\<lparr>safe_mode := True,
                        safe_mode_reason := Some (''Health score F '' @ em_dash @
                                                   '' auto-engaged by health engine''),
                        enabled_at := Some (clock env), enabled_by := Some ''system''\<rparr>)
            \<and> prefix ''Health score F''
                 (''Health score F '' @ em_dash @ '' auto-engaged by health engine'')
            \<and> map severity (alerts_sent (effect res)) = [CRITICAL, CRITICAL])
       \<and> (40 \<le> score (health_report res) \<and> score (health_report res) \<le> 49 \<longrightarrow>
            alerts_sent (effect res) = [] \<and> mode_after (effect res) = Some row
            \<and> breaches (effect res) =
                (if clock env - (case lastAlert reg ''system.health_score'' of
                                   Some l \<Rightarrow> l | None \<Rightarrow> 0) > 300000
                 then [(\<lparr>metric = ''system.health_score'', operator = lt, th_value = 50,
                          th_severity = HIGH, cooldownMs = 300000\<rparr>,
                        real_of_int (score (health_report res)))]
                 else []))"
  using compute_below_40 [OF assms] compute_40_49 [OF assms]
  by simp

theorem compute_safe_mode_engagement_witness:
  "(case compute
       \<lparr>drift_newest = Inr (Some 0), error_rate_gauge = 1 / 10, p95_latency = 1200,
        incident_summary = Inr [P1 \<mapsto> 3], backup_newest = Inr None,
        pending_migrations = Inr 0,
        system_mode_row = Inr (Some \<lparr>safe_mode = False, safe_mode_reason = None,
           enabled_at = None, enabled_by = None, override_token = None\<rparr>),
        report_summary = Inr [P1 \<mapsto> 3],
        report_drift_newest = Inr (Some 0), insert_succeeds = True,
        rendered_components = [], clock = 1000000\<rparr>
       \<lparr>gauges = Map.empty, lastAlert = Map.empty\<rparr> of
     Inl e \<Rightarrow> False
   | Inr res \<Rightarrow>
       score (health_report res) = 5
       \<and> mode_after (effect res) =
           Some \<lparr>safe_mode = True,
                 safe_mode_reason = Some (''Health score F '' @ em_dash @
                                           '' auto-engaged by health engine''),
                 enabled_at = Some 1000000, enabled_by = Some ''system'',
                 override_token = None\<rparr>
       \<and> map severity (alerts_sent (effect res)) = [CRITICAL, CRITICAL])
   \<and> (case compute
       \<lparr>drift_newest = Inr (Some 100), error_rate_gauge = 1 / 10, p95_latency = 0,
        incident_summary = Inr [P1 \<mapsto> 3], backup_newest = Inr None,
        pending_migrations = Inr 2,
        system_mode_row = Inr (Some \<lparr>safe_mode = False, safe_mode_reason = None,
           enabled_at = None, enabled_by = None, override_token = None\<rparr>),
        report_summary = Inr [P1 \<mapsto> 3],
        report_drift_newest = Inr (Some 100), insert_succeeds = True,
        rendered_components = [], clock = 1000000\<rparr>
       \<lparr>gauges = Map.empty, lastAlert = Map.empty\<rparr> of
     Inl e \<Rightarrow> False
   | Inr res \<Rightarrow>
       score (health_report res) = 45
       \<and> alerts_sent (effect res) = []
       \<and> mode_after (effect res) =
           Some \<lparr>safe_mode = False, safe_mode_reason = None,
                 enabled_at = None, enabled_by = None, override_token = None\<rparr>
       \<and> breaches (effect res) =
           [(\<lparr>metric = ''system.health_score'', operator = lt, th_value = 50,
               th_severity = HIGH, cooldownMs = 300000\<rparr>, 45)])"
proof -
  let ?row = "\<lparr>safe_mode = False, safe_mode_reason = None,
           enabled_at = None, enabled_by = None, override_token = None\<rparr>"
  let ?envF = "\<lparr>drift_newest = Inr (Some 0), error_rate_gauge = 1 / 10, p95_latency = 1200,
        incident_summary = Inr [P1 \<mapsto> 3], backup_newest = Inr None,
        pending_migrations = Inr 0,
        system_mode_row = Inr (Some ?row),
        report_summary = Inr [P1 \<mapsto> 3],
        report_drift_newest = Inr (Some 0), insert_succeeds = True,
        rendered_components = [], clock = 1000000\<rparr>"
  let ?envD = "\<lparr>drift_newest = Inr (Some 100), error_rate_gauge = 1 / 10, p95_latency = 0,
        incident_summary = Inr [P1 \<mapsto> 3], backup_newest = Inr None,
        pending_migrations = Inr 2,
        system_mode_row = Inr (Some ?row),
        report_summary = Inr [P1 \<mapsto> 3],
        report_drift_newest = Inr (Some 100), insert_succeeds = True,
        rendered_components = [], clock = 1000000\<rparr>"
  let ?reg = "\<lparr>gauges = Map.empty, lastAlert = Map.empty\<rparr>"
  have cF: "score_of (components_of ?envF) = 5"
    by (simp add: health_defs)
  have cD: "score_of (components_of ?envD) = 45"
    by (simp add: health_defs)
  obtain resF where rF: "compute ?envF ?reg = Inr resF"
    by (simp add: compute_def Let_def gauge_health_score health_defs enableSafeMode_def
        split: prod.splits)
  obtain resD where rD: "compute ?envD ?reg = Inr resD"
    by (simp add: compute_def Let_def gauge_health_score health_defs)
  have sF: "score (health_report resF) = 5" using compute_report [OF rF] cF by simp
  have sD: "score (health_report resD) = 45" using compute_report [OF rD] cD by simp
  have mF: "system_mode_row ?envF = Inr (Some ?row)" by simp
  have mD: "system_mode_row ?envD = Inr (Some ?row)" by simp
  show ?thesis
    using compute_safe_mode_engagement [OF rF mF] compute_safe_mode_engagement [OF rD mD] sF sD
    by (simp add: rF rD)
qed

text \<open>
  C3 as stated fails for the scores 40 to 49: at score 45 with safe mode off no alert is
  sent, so no CRITICAL alert is emitted; the gauge's breach event has severity HIGH.
\<close>

theorem compute_score_45_counterexample:
  "case compute
       \<lparr>drift_newest = Inr (Some 100), error_rate_gauge = 1 / 10, p95_latency = 0,
        incident_summary = Inr [P1 \<mapsto> 3], backup_newest = Inr None,
        pending_migrations = Inr 2,
        system_mode_row = Inr (Some \<lparr>safe_mode = False, safe_mode_reason = None,
           enabled_at = None, enabled_by = None, override_token = None\<rparr>),
        report_summary = Inr [P1 \<mapsto> 3],
        report_drift_newest = Inr (Some 100), insert_succeeds = True,
        rendered_components = [], clock = 1000000\<rparr>
       \<lparr>gauges = Map.empty, lastAlert = Map.empty\<rparr> of
     Inl e \<Rightarrow> False
   | Inr res \<Rightarrow>
       score (health_report res) = 45
       \<and> alerts_sent (effect res) = []
       \<and> map (\<lambda>b. th_severity (fst b)) (breaches (effect res)) = [HIGH]"
  by (simp add: compute_def Let_def gauge_health_score health_defs)


end
